theory Spec2Isabelle
  imports Main "HOL-Library.Sublist"
begin

section \<open>Python values shared by both scripts\<close>

subsection \<open>Strings\<close>

text \<open>
  A Python \<open>str\<close> is a sequence of code points, so it is modelled as a list of naturals;
  \<open>lit\<close> embeds an ASCII literal, and code points beyond ASCII (the report's symbols and
  accented letters) are written as numbers.
\<close>

type_synonym pystr = "nat list"

definition lit :: "string \<Rightarrow> pystr" where
  "lit s = map of_char s"

text \<open>\<open>sub in s\<close>: \<open>sub\<close> occurs in \<open>s\<close> as a contiguous run.\<close>

fun str_in :: "pystr \<Rightarrow> pystr \<Rightarrow> bool" where
  "str_in sub [] = (sub = [])"
| "str_in sub (c # cs) = (prefix sub (c # cs) \<or> str_in sub cs)"

definition startswith :: "pystr \<Rightarrow> pystr \<Rightarrow> bool" where
  "startswith s p = prefix p s"

text \<open>\<open>str(n)\<close> for an integer, as decimal digits.\<close>

fun digits :: "nat \<Rightarrow> pystr" where
  "digits n = (if n < 10 then [48 + n] else digits (n div 10) @ [48 + n mod 10])"

declare digits.simps [simp del]

definition str_int :: "int \<Rightarrow> pystr" where
  "str_int i = (if i < 0 then 45 # digits (nat (- i)) else digits (nat i))"

definition str_len :: "'a list \<Rightarrow> pystr" where
  "str_len xs = str_int (int (length xs))"

text \<open>
  \<open>str.isspace\<close> on one character, which is also the class \<open>\s\<close> of a \<open>str\<close> pattern:
  the Unicode white space code points.
\<close>

definition isspace :: "nat \<Rightarrow> bool" where
  "isspace c = ((9 \<le> c \<and> c \<le> 13) \<or> (28 \<le> c \<and> c \<le> 32) \<or> c = 0x85 \<or> c = 0xA0
     \<or> c = 0x1680 \<or> (0x2000 \<le> c \<and> c \<le> 0x200A) \<or> c = 0x2028 \<or> c = 0x2029
     \<or> c = 0x202F \<or> c = 0x205F \<or> c = 0x3000)"

definition strip :: "pystr \<Rightarrow> pystr" where
  "strip s = rev (dropWhile isspace (rev (dropWhile isspace s)))"

text \<open>\<open>s.split("\n")\<close>: the pieces between line feeds, at least one piece.\<close>

fun split_nl :: "pystr \<Rightarrow> pystr list" where
  "split_nl [] = [[]]"
| "split_nl (c # cs) =
     (if c = 10 then [] # split_nl cs
      else (case split_nl cs of l # ls \<Rightarrow> (c # l) # ls | [] \<Rightarrow> [[c]]))"

text \<open>The symbols the two scripts print, by code point.\<close>

definition sym_ok :: pystr where "sym_ok = [0x2705]"
definition sym_fail :: pystr where "sym_fail = [0x274C]"
definition sym_warn :: pystr where "sym_warn = [0x26A0, 0xFE0F]"
definition sym_clipboard :: pystr where "sym_clipboard = [0x1F4CB]"
definition sym_chart :: pystr where "sym_chart = [0x1F4CA]"
definition sym_trend :: pystr where "sym_trend = [0x1F4C8]"
definition sym_red :: pystr where "sym_red = [0x1F534]"
definition sym_yellow :: pystr where "sym_yellow = [0x1F7E1]"
definition sym_party :: pystr where "sym_party = [0x1F389]"
definition sym_search :: pystr where "sym_search = [0x1F50D]"

definition rule70 :: pystr where
  "rule70 = replicate 70 61"

subsection \<open>Exceptions\<close>

text \<open>
  The exception classes that imports, file reads and the parser raise, with the two
  classes outside \<open>Exception\<close>. An exception carries its class and the text \<open>str(e)\<close>.
\<close>

datatype exc_class =
    ImportError | ModuleNotFoundError | SyntaxError | IndentationError
  | OSError | FileNotFoundError | PermissionError | UnicodeDecodeError | ValueError
  | TypeError | AttributeError | RecursionError | RuntimeError
  | KeyboardInterrupt | SystemExit

datatype exc = Exc (exc_class: exc_class) (exc_str: pystr)

fun is_ImportError :: "exc \<Rightarrow> bool" where
  "is_ImportError (Exc c t) = (c = ImportError \<or> c = ModuleNotFoundError)"

fun is_SyntaxError :: "exc \<Rightarrow> bool" where
  "is_SyntaxError (Exc c t) = (c = SyntaxError \<or> c = IndentationError)"

fun is_Exception :: "exc \<Rightarrow> bool" where
  "is_Exception (Exc c t) = (c \<noteq> KeyboardInterrupt \<and> c \<noteq> SystemExit)"

subsection \<open>Paths\<close>

text \<open>
  A path is its string. Its parts are the pieces between slashes, without the empty ones
  and the single dots that \<open>Path\<close> drops; \<open>name\<close> is the last part, empty when there is
  none (as for the path \<open>.\<close>); \<open>joinpath\<close> is the operator \<open>/\<close> on a relative right
  operand.
\<close>

type_synonym path = pystr

fun path_pieces :: "pystr \<Rightarrow> pystr list" where
  "path_pieces [] = [[]]"
| "path_pieces (c # cs) =
     (if c = 47 then [] # path_pieces cs
      else (case path_pieces cs of l # ls \<Rightarrow> (c # l) # ls | [] \<Rightarrow> [[c]]))"

definition path_parts :: "path \<Rightarrow> pystr list" where
  "path_parts p = filter (\<lambda>part. part \<noteq> [] \<and> part \<noteq> [46]) (path_pieces p)"

definition path_name :: "path \<Rightarrow> pystr" where
  "path_name p = (case rev (path_parts p) of [] \<Rightarrow> [] | n # ns \<Rightarrow> n)"

definition joinpath :: "path \<Rightarrow> pystr \<Rightarrow> path" where
  "joinpath b r = b @ [47] @ r"

subsection \<open>Regular expressions\<close>

text \<open>
  The patterns of the scripts are flat: a sequence of items, each a character class taken
  once or under a greedy star, the word boundary \<open>\b\<close>, or the line start \<open>^\<close> of
  \<open>re.MULTILINE\<close>. \<open>x+\<close> is written as \<open>x\<close> followed by \<open>x*\<close>, and a capturing group
  as its content, since only the existence and the extent of a match are used.
\<close>

datatype cls =
    Chr nat
  | Dot
  | WSpace
  | Ranges "(nat \<times> nat) list"
  | NotRanges "(nat \<times> nat) list"

fun cls_match :: "cls \<Rightarrow> nat \<Rightarrow> bool" where
  "cls_match (Chr d) c = (c = d)"
| "cls_match Dot c = (c \<noteq> 10)"
| "cls_match WSpace c = isspace c"
| "cls_match (Ranges rs) c = list_ex (\<lambda>(lo, hi). lo \<le> c \<and> c \<le> hi) rs"
| "cls_match (NotRanges rs) c = (\<not> list_ex (\<lambda>(lo, hi). lo \<le> c \<and> c \<le> hi) rs)"

datatype item = One cls | Star cls | WordB | LineStart

definition re_lits :: "string \<Rightarrow> item list" where
  "re_lits s = map (\<lambda>c. One (Chr (of_char c))) s"

text \<open>
  A word character of a \<open>str\<close> pattern is an alphanumeric character or the underscore.
  Beyond ASCII, which code points are alphanumeric is a table of the Python runtime,
  taken as the parameter \<open>ua\<close>.
\<close>

definition is_word :: "(nat \<Rightarrow> bool) \<Rightarrow> nat \<Rightarrow> bool" where
  "is_word ua c =
    (if c < 128 then (48 \<le> c \<and> c \<le> 57) \<or> (65 \<le> c \<and> c \<le> 90) \<or> (97 \<le> c \<and> c \<le> 122) \<or> c = 95
     else ua c)"

text \<open>
  \<open>\b\<close> holds between the previous character \<open>prev\<close> (none at the start) and the rest
  \<open>s\<close> of the string when exactly one side is a word character.
\<close>

definition boundary :: "(nat \<Rightarrow> bool) \<Rightarrow> nat option \<Rightarrow> pystr \<Rightarrow> bool" where
  "boundary ua prev s =
    ((case prev of None \<Rightarrow> False | Some c \<Rightarrow> is_word ua c)
      \<noteq> (case s of [] \<Rightarrow> False | c # cs \<Rightarrow> is_word ua c))"

text \<open>
  \<open>match_here\<close> is the backtracking matcher anchored at the current position: the result
  is the first match in the order the engine tries them (a star takes as much as it can
  and gives back one character at a time), as the last character consumed and the rest
  of the string.
\<close>

fun match_here :: "(nat \<Rightarrow> bool) \<Rightarrow> item list \<Rightarrow> nat option \<Rightarrow> pystr \<Rightarrow> (nat option \<times> pystr) option"
  where
  "match_here ua [] prev s = Some (prev, s)"
| "match_here ua (One a # p) prev [] = None"
| "match_here ua (One a # p) prev (c # cs) =
     (if cls_match a c then match_here ua p (Some c) cs else None)"
| "match_here ua (Star a # p) prev [] = match_here ua p prev []"
| "match_here ua (Star a # p) prev (c # cs) =
     (if cls_match a c then
        (case match_here ua (Star a # p) (Some c) cs of
           Some r \<Rightarrow> Some r
         | None \<Rightarrow> match_here ua p prev (c # cs))
      else match_here ua p prev (c # cs))"
| "match_here ua (WordB # p) prev s =
     (if boundary ua prev s then match_here ua p prev s else None)"
| "match_here ua (LineStart # p) prev s =
     (if prev = None \<or> prev = Some 10 then match_here ua p prev s else None)"

text \<open>\<open>re.search\<close>, as a truth value: some position has a match.\<close>

fun search_from :: "(nat \<Rightarrow> bool) \<Rightarrow> item list \<Rightarrow> nat option \<Rightarrow> pystr \<Rightarrow> bool" where
  "search_from ua p prev [] = (match_here ua p prev [] \<noteq> None)"
| "search_from ua p prev (c # cs) =
     (match_here ua p prev (c # cs) \<noteq> None \<or> search_from ua p (Some c) cs)"

definition re_search :: "(nat \<Rightarrow> bool) \<Rightarrow> item list \<Rightarrow> pystr \<Rightarrow> bool" where
  "re_search ua p s = search_from ua p None s"

text \<open>
  \<open>len(re.findall ...)\<close>: the matches from left to right without overlap, each search
  resuming where the last match ended (one character further after an empty match).
\<close>

fun findall_from :: "(nat \<Rightarrow> bool) \<Rightarrow> item list \<Rightarrow> nat option \<Rightarrow> pystr \<Rightarrow> nat" where
  "findall_from ua p prev s =
     (case match_here ua p prev s of
        Some (prev', r) \<Rightarrow>
          (if length r < length s then 1 + findall_from ua p prev' r
           else (case s of [] \<Rightarrow> 1 | c # cs \<Rightarrow> 1 + findall_from ua p (Some c) cs))
      | None \<Rightarrow> (case s of [] \<Rightarrow> 0 | c # cs \<Rightarrow> findall_from ua p (Some c) cs))"

declare findall_from.simps [simp del]

definition findall_count :: "(nat \<Rightarrow> bool) \<Rightarrow> item list \<Rightarrow> pystr \<Rightarrow> nat" where
  "findall_count ua p s = findall_from ua p None s"

section \<open>The compliance checker (scripts/check_agents_compliance.py)\<close>

subsection \<open>State of a checker instance\<close>

text \<open>
  \<open>issues\<close> holds (file, message, severity) with severity 1 a warning and 2 an error;
  \<open>passed\<close> holds the messages of the checks that passed.
\<close>

record checker =
  issues :: "(pystr \<times> pystr \<times> int) list"
  passed :: "pystr list"

definition init_checker :: checker where
  "init_checker = \<lparr>issues = [], passed = []\<rparr>"

definition severity :: "pystr \<times> pystr \<times> int \<Rightarrow> int" where
  "severity i = snd (snd i)"

subsection \<open>The Python runtime and the file system\<close>

text \<open>
  What the checker takes from outside the repository: the runtime's table of
  alphanumeric code points beyond ASCII, the parser (\<open>ast.parse\<close> followed by
  \<open>ast.walk\<close>, giving the nodes of the tree or the exception raised), and the file system
  (\<open>Path.exists\<close> and \<open>Path.read_text\<close>, which raises when the file cannot be read or
  decoded).
\<close>

datatype expr = Name pystr | OtherExpr

datatype node =
    FunctionDef pystr "expr option" "expr list"
  | AsyncFunctionDef pystr "expr option" "expr list"
  | OtherNode

record world =
  uni_alnum :: "nat \<Rightarrow> bool"
  ast_walk :: "pystr \<Rightarrow> exc + node list"
  path_exists :: "path \<Rightarrow> bool"
  read_text :: "path \<Rightarrow> exc + pystr"

subsection \<open>The ten checks of a file\<close>

text \<open>
  Each check takes the file's path and content and returns the updated checker; the
  method names are the source's without the leading underscore.
\<close>

definition add_issue :: "pystr \<times> pystr \<times> int \<Rightarrow> checker \<Rightarrow> checker" where
  "add_issue i st = st\<lparr>issues := issues st @ [i]\<rparr>"

definition add_passed :: "pystr \<Rightarrow> checker \<Rightarrow> checker" where
  "add_passed m st = st\<lparr>passed := passed st @ [m]\<rparr>"

definition typing_pattern :: "string \<Rightarrow> item list" where
  "typing_pattern name = re_lits ''from typing import'' @ [Star Dot, WordB] @ re_lits name @ [WordB]"

definition deprecated :: "(item list \<times> pystr) list" where
  "deprecated =
    [(typing_pattern ''List'', lit ''List''),
     (typing_pattern ''Dict'', lit ''Dict''),
     (typing_pattern ''Set'', lit ''Set''),
     (typing_pattern ''Tuple'', lit ''Tuple''),
     (typing_pattern ''Optional'', lit ''Optional''),
     (typing_pattern ''Union'', lit ''Union'')]"

definition deprecated_msg :: "pystr \<Rightarrow> pystr" where
  "deprecated_msg name = sym_fail @ lit '' Deprecated: '' @ [39] @ lit ''from typing import ''
                      @ name @ [39] @ lit '' (use built-in)''"

definition check_no_deprecated_typing :: "(nat \<Rightarrow> bool) \<Rightarrow> path \<Rightarrow> pystr \<Rightarrow> checker \<Rightarrow> checker"
  where
  "check_no_deprecated_typing ua filepath content st =
    (case find (\<lambda>(pattern, name). re_search ua pattern content) deprecated of
       Some (pattern, name) \<Rightarrow>
         add_issue (filepath, deprecated_msg name, 2) st
     | None \<Rightarrow>
         add_passed (sym_ok @ lit '' No deprecated typing imports ('' @ path_name filepath
                      @ lit '')'') st)"

definition check_union_types :: "path \<Rightarrow> pystr \<Rightarrow> checker \<Rightarrow> checker" where
  "check_union_types filepath content st =
    (if str_in (lit ''| None'') content \<or> str_in (lit ''| '') content then
       add_passed (sym_ok @ lit '' Uses modern union types with | ('' @ path_name filepath
                    @ lit '')'') st
     else st)"

definition bare_except_pattern :: "item list" where
  "bare_except_pattern = re_lits ''except'' @ [Star WSpace] @ re_lits '':''"

definition bare_except_msg :: pystr where
  "bare_except_msg = sym_fail @ lit '' Bare '' @ [39] @ lit ''except:'' @ [39]
                    @ lit '' found (use specific exceptions)''"

definition check_no_bare_except :: "(nat \<Rightarrow> bool) \<Rightarrow> path \<Rightarrow> pystr \<Rightarrow> checker \<Rightarrow> checker" where
  "check_no_bare_except ua filepath content st =
    (if re_search ua bare_except_pattern content then
       add_issue (filepath, bare_except_msg, 2) st
     else
       add_passed (sym_ok @ lit '' No bare except clauses ('' @ path_name filepath @ lit '')'') st)"

definition is_property :: "expr \<Rightarrow> bool" where
  "is_property dec = (case dec of Name i \<Rightarrow> i = lit ''property'' | OtherExpr \<Rightarrow> False)"

text \<open>The body of the loop over the nodes: the names one node adds to \<open>untyped_functions\<close>.\<close>

definition untyped_function :: "pystr \<Rightarrow> expr option \<Rightarrow> expr list \<Rightarrow> pystr list" where
  "untyped_function name returns decorator_list =
    (if startswith name (lit ''_'') then []
     else if returns = None \<and> \<not> list_ex is_property decorator_list then
       (if startswith name (lit ''test_'') then [] else [name])
     else [])"

fun untyped_of_node :: "node \<Rightarrow> pystr list" where
  "untyped_of_node (FunctionDef name returns decs) = untyped_function name returns decs"
| "untyped_of_node (AsyncFunctionDef name returns decs) = untyped_function name returns decs"
| "untyped_of_node OtherNode = []"

definition check_type_hints :: "world \<Rightarrow> path \<Rightarrow> pystr \<Rightarrow> checker \<Rightarrow> exc + checker" where
  "check_type_hints w filepath content st =
    (case ast_walk w content of
       Inr tree \<Rightarrow>
         (let untyped_functions = concat (map untyped_of_node tree) in
          if untyped_functions \<noteq> [] then
            Inr (add_passed (sym_ok @ lit '' Most functions typed ('' @ path_name filepath
                   @ lit '') - '' @ str_len untyped_functions @ lit '' without return hints'') st)
          else
            Inr (add_passed (sym_ok @ lit '' All functions have type hints (''
                   @ path_name filepath @ lit '')'') st))
     | Inl e \<Rightarrow>
         (if is_SyntaxError e then
            Inr (add_issue (filepath, sym_fail @ lit '' Syntax error: '' @ exc_str e, 2) st)
          else Inl e))"

definition class_pattern :: "item list" where
  "class_pattern =
    [LineStart] @ re_lits ''class''
    @ [One WSpace, Star WSpace, One (Ranges [(65, 90)]),
       Star (Ranges [(97, 122), (65, 90), (48, 57)]), Star WSpace,
       One (Ranges [(58, 58), (40, 40)])]"

definition func_pattern :: "item list" where
  "func_pattern =
    [LineStart, Star WSpace] @ re_lits ''def''
    @ [One WSpace, Star WSpace, One (Ranges [(97, 122), (95, 95)]),
       Star (Ranges [(97, 122), (48, 57), (95, 95)]), Star WSpace, One (Chr 40)]"

definition check_naming :: "(nat \<Rightarrow> bool) \<Rightarrow> path \<Rightarrow> pystr \<Rightarrow> checker \<Rightarrow> checker" where
  "check_naming ua filepath content st =
    (let st1 =
       (if findall_count ua class_pattern content \<noteq> 0 then
          add_passed (sym_ok @ lit '' Classes in PascalCase ('' @ path_name filepath @ lit '')'') st
        else st)
     in
       if findall_count ua func_pattern content \<noteq> 0 then
         add_passed (sym_ok @ lit '' Functions in snake_case ('' @ path_name filepath @ lit '')'') st1
       else st1)"

definition docstring_pattern :: "item list" where
  "docstring_pattern =
    [One (Chr 34), One (Chr 34), One (Chr 34), Star (NotRanges [(34, 34)]),
     One (Chr 34), One (Chr 34), One (Chr 34)]"

definition doc_count :: "(nat \<Rightarrow> bool) \<Rightarrow> pystr \<Rightarrow> nat" where
  "doc_count ua content = findall_count ua docstring_pattern content"

definition check_docstrings :: "(nat \<Rightarrow> bool) \<Rightarrow> path \<Rightarrow> pystr \<Rightarrow> checker \<Rightarrow> checker" where
  "check_docstrings ua filepath content st =
    (if doc_count ua content > 5 then
       add_passed (sym_ok @ lit '' Comprehensive docstrings ('' @ path_name filepath @ lit '') - ''
                    @ str_int (int (doc_count ua content)) @ lit '' found'') st
     else
       add_issue (filepath, sym_warn @ lit '' Few docstrings found (''
                    @ str_int (int (doc_count ua content)) @ lit '')'', 1) st)"

definition check_line_length :: "path \<Rightarrow> pystr \<Rightarrow> checker \<Rightarrow> checker" where
  "check_line_length filepath content st =
    (let long_lines =
       filter (\<lambda>(i, line). length line > 120 \<and> \<not> startswith (strip line) (lit ''#''))
         (map (\<lambda>(i, line). (i + 1, line)) (enumerate 0 (split_nl content)))
     in
       if long_lines \<noteq> [] then
         add_issue (filepath, sym_warn @ lit '' '' @ str_len long_lines
                      @ lit '' lines exceed 120 characters'', 1) st
       else
         add_passed (sym_ok @ lit '' All lines '' @ [0x2264] @ lit '' 120 characters (''
                      @ path_name filepath @ lit '')'') st)"

text \<open>The loop that extracts the import section, with its flag \<open>in_imports\<close>.\<close>

fun import_section :: "bool \<Rightarrow> pystr list \<Rightarrow> pystr list" where
  "import_section in_imports [] = []"
| "import_section in_imports (line # lines) =
     (if startswith line (lit ''import '') \<or> startswith line (lit ''from '') then
        line # import_section True lines
      else if in_imports \<and> line \<noteq> [] \<and> \<not> isspace (hd line) then []
      else import_section in_imports lines)"

text \<open>\<open>next((i for i, line in enumerate(xs) if P line), -1)\<close>.\<close>

fun first_index :: "('a \<Rightarrow> bool) \<Rightarrow> 'a list \<Rightarrow> int" where
  "first_index P [] = - 1"
| "first_index P (x # xs) =
     (if P x then 0 else (let i = first_index P xs in if i < 0 then - 1 else i + 1))"

definition is_stdlib_line :: "pystr \<Rightarrow> bool" where
  "is_stdlib_line line =
    (str_in (lit ''import threading'') line \<or> str_in (lit ''import concurrent'') line)"

definition is_thirdparty_line :: "pystr \<Rightarrow> bool" where
  "is_thirdparty_line line = (str_in (lit ''PySide6'') line \<or> str_in (lit ''requests'') line)"

definition check_isort_order :: "path \<Rightarrow> pystr \<Rightarrow> checker \<Rightarrow> checker" where
  "check_isort_order filepath content st =
    (let import_lines = import_section False (split_nl content) in
     if import_lines \<noteq> [] then
       (let has_stdlib = list_ex is_stdlib_line import_lines;
            has_thirdparty = list_ex is_thirdparty_line import_lines;
            has_firstparty = list_ex (str_in (lit ''from tidal_dl_ng'')) import_lines
        in
          if has_stdlib \<and> has_thirdparty \<and> has_firstparty then
            (let stdlib_idx = first_index is_stdlib_line import_lines;
                 thirdparty_idx = first_index is_thirdparty_line import_lines
             in
               if stdlib_idx < thirdparty_idx then
                 add_passed (sym_ok @ lit '' Imports properly ordered (isort) (''
                              @ path_name filepath @ lit '')'') st
               else
                 add_issue (filepath, sym_warn @ lit '' Import order may not match isort'', 1) st)
          else
            add_passed (sym_ok @ lit '' Import order OK ('' @ path_name filepath @ lit '')'') st)
     else st)"

definition check_thread_safety :: "path \<Rightarrow> pystr \<Rightarrow> checker \<Rightarrow> checker" where
  "check_thread_safety filepath content st =
    (let st1 =
       (if str_in (lit ''threading.RLock'') content \<or> str_in (lit ''threading.Lock'') content then
          add_passed (sym_ok @ lit '' Uses threading.Lock for thread-safety (''
                       @ path_name filepath @ lit '')'') st
        else st);
         st2 =
       (if str_in (lit ''with self._lock'') content then
          add_passed (sym_ok @ lit '' Uses context managers for locks (''
                       @ path_name filepath @ lit '')'') st1
        else st1)
     in
       if str_in (lit ''ThreadPoolExecutor'') content then
         add_passed (sym_ok @ lit '' Uses ThreadPoolExecutor for concurrency (''
                      @ path_name filepath @ lit '')'') st2
       else st2)"

definition check_logging :: "path \<Rightarrow> pystr \<Rightarrow> checker \<Rightarrow> checker" where
  "check_logging filepath content st =
    (if str_in (lit ''logger_gui'') content \<or> str_in (lit ''logger'') content then
       add_passed (sym_ok @ lit '' Uses project logger ('' @ path_name filepath @ lit '')'') st
     else st)"

subsection \<open>Checking one file, and the script\<close>

text \<open>
  The checks applied to a content already read, in the order of \<open>check_file\<close>; only the
  type-hints check can raise.
\<close>

definition run_checks :: "world \<Rightarrow> path \<Rightarrow> pystr \<Rightarrow> checker \<Rightarrow> exc + checker" where
  "run_checks w filepath content st =
    (let st1 = check_no_deprecated_typing (uni_alnum w) filepath content st;
         st2 = check_union_types filepath content st1;
         st3 = check_no_bare_except (uni_alnum w) filepath content st2
     in
       case check_type_hints w filepath content st3 of
         Inl e \<Rightarrow> Inl e
       | Inr st4 \<Rightarrow>
           (let st5 = check_naming (uni_alnum w) filepath content st4;
                st6 = check_docstrings (uni_alnum w) filepath content st5;
                st7 = check_line_length filepath content st6;
                st8 = check_isort_order filepath content st7;
                st9 = check_thread_safety filepath content st8
            in Inr (check_logging filepath content st9)))"

text \<open>
  \<open>check_file\<close> prints its header, reads the file with no handler around the read, and
  runs the checks. The result is the exception that leaves the method, or the checker
  and the output.
\<close>

definition check_file :: "world \<Rightarrow> path \<Rightarrow> checker \<times> pystr list \<Rightarrow> exc + checker \<times> pystr list"
  where
  "check_file w filepath s =
    (case s of (st, out) \<Rightarrow>
       (let out1 = out @ [10 # sym_clipboard @ lit '' V'' @ [0xE9] @ lit ''rification: ''
                            @ path_name filepath, rule70]
        in case read_text w filepath of
             Inl e \<Rightarrow> Inl e
           | Inr content \<Rightarrow>
               (case run_checks w filepath content st of
                  Inl e \<Rightarrow> Inl e
                | Inr st' \<Rightarrow> Inr (st', out1))))"

definition files_to_check :: "path \<Rightarrow> path list" where
  "files_to_check base_dir =
    [joinpath base_dir (lit ''tidal_dl_ng/gui/playlist_membership.py''),
     joinpath base_dir (lit ''tidal_dl_ng/ui/dialog_playlist_manager.py''),
     joinpath base_dir (lit ''tests/test_playlist_manager.py'')]"

text \<open>The loop of the script over the files.\<close>

fun check_files :: "world \<Rightarrow> path list \<Rightarrow> checker \<times> pystr list \<Rightarrow> exc + checker \<times> pystr list"
  where
  "check_files w [] s = Inr s"
| "check_files w (filepath # rest) s =
     (if path_exists w filepath then
        (case check_file w filepath s of
           Inl e \<Rightarrow> Inl e
         | Inr s' \<Rightarrow> check_files w rest s')
      else
        check_files w rest
          (fst s, snd s @ [sym_warn @ lit '' File not found: '' @ filepath]))"

subsection \<open>The report and its exit code\<close>

text \<open>
  \<open>report\<close> prints to standard output, modelled as the list of printed strings, and
  returns the exit code.
\<close>

definition report :: "checker \<Rightarrow> pystr list \<Rightarrow> pystr list \<times> int" where
  "report st out =
    (let out1 = out @ [10 # rule70,
                       sym_chart @ lit '' RAPPORT DE CONFORMIT'' @ [0xC9] @ lit '' AGENTS.md'',
                       rule70,
                       10 # sym_ok @ lit '' V'' @ [0xC9] @ lit ''RIFICATIONS R'' @ [0xC9]
                         @ lit ''USSIES:''];
         out2 = out1 @ map (\<lambda>msg. lit ''  '' @ msg) (passed st);
         out3 =
           (if issues st \<noteq> [] then
              (let errors = filter (\<lambda>i. severity i = 2) (issues st);
                   warnings = filter (\<lambda>i. severity i = 1) (issues st)
               in out2
                  @ [10 # sym_warn @ lit '' PROBL'' @ [0xC8] @ lit ''MES D'' @ [0xC9] @ lit ''TECT''
                       @ [0xC9] @ lit ''S:'']
                  @ map (\<lambda>(filepath, msg, s). lit ''  '' @ sym_red @ lit '' '' @ filepath
                           @ lit '': '' @ msg) errors
                  @ map (\<lambda>(filepath, msg, s). lit ''  '' @ sym_yellow @ lit '' '' @ filepath
                           @ lit '': '' @ msg) warnings
                  @ [10 # sym_trend @ lit '' R'' @ [0xE9] @ lit ''sum'' @ [0xE9] @ lit '': ''
                       @ str_len (passed st) @ lit '' v'' @ [0xE9] @ lit ''rifications r''
                       @ [0xE9] @ lit ''ussies, '' @ str_len warnings @ lit '' avertissements, ''
                       @ str_len errors @ lit '' erreurs''])
            else
              out2
              @ [10 # sym_party @ lit '' AUCUN PROBL'' @ [0xC8] @ lit ''ME D'' @ [0xC9]
                   @ lit ''TECT'' @ [0xC9] @ lit ''!'',
                 sym_trend @ lit '' R'' @ [0xE9] @ lit ''sum'' @ [0xE9] @ lit '': ''
                   @ str_len (passed st) @ lit '' v'' @ [0xE9] @ lit ''rifications r'' @ [0xE9]
                   @ lit ''ussies''])
     in (out3, if length (filter (\<lambda>i. severity i = 2) (issues st)) = 0 then 0 else 1))"

text \<open>
  The script: a fresh checker, the loop over the three files, the report. The result is
  the uncaught exception, or the output and the exit code passed to \<open>exit\<close>.
\<close>

definition main :: "world \<Rightarrow> path \<Rightarrow> exc + pystr list \<times> int" where
  "main w base_dir =
    (case check_files w (files_to_check base_dir) (init_checker, []) of
       Inl e \<Rightarrow> Inl e
     | Inr (checker, out) \<Rightarrow> Inr (report checker out))"



text \<open>
  Texts for the docstring count: a file made of blocks, each three double quotes, a body,
  three double quotes and the text up to the next block; six docstrings that quote a word
  inside; six docstrings in single quotes.
\<close>

definition q3 :: pystr where
  "q3 = [34, 34, 34]"

definition blocks_text :: "pystr \<Rightarrow> (pystr \<times> pystr) list \<Rightarrow> pystr" where
  "blocks_text sep0 bs = sep0 @ concat (map (\<lambda>(body, sep). q3 @ body @ q3 @ sep) bs)"

definition quoted_docstrings :: pystr where
  "quoted_docstrings =
    concat (replicate 6 (q3 @ lit ''Say '' @ [34] @ lit ''hi'' @ [34] @ lit ''.'' @ q3 @ [10]))"

definition single_quoted_docstrings :: pystr where
  "single_quoted_docstrings = concat (replicate 6 ([39, 39, 39] @ lit ''doc'' @ [39, 39, 39, 10]))"

text \<open>A file whose only function has no return annotation.\<close>

definition world_untyped :: world where
  "world_untyped =
    \<lparr>uni_alnum = (\<lambda>c. False),
     ast_walk = (\<lambda>content. Inr [OtherNode, FunctionDef (lit ''load'') None [], OtherNode]),
     path_exists = (\<lambda>p. True),
     read_text = (\<lambda>p. Inr (lit ''def load(): pass'' @ [10]))\<rparr>"

section \<open>The integration verifier (scripts/verify_playlist_integration.py)\<close>

subsection \<open>The application under verification\<close>

text \<open>
  What the verifier probes, outside the script. All imports run in one interpreter, and
  an import reads and changes its state (the modules loaded or half loaded so far): so
  \<open>__import__\<close> for a module and a \<open>fromlist\<close>, and a \<open>from ... import\<close> statement, take the
  interpreter state and give the exception raised, if any, with the state they leave.
  \<open>issubclass(MainWindow, PlaylistMembershipMixin)\<close> and \<open>hasattr(MainWindow, name)\<close> read
  that state. \<open>open(path).read()\<close> reads the file system, which the verifier never
  writes. The type \<open>'i\<close> of interpreter states is left open.
\<close>

record 'i site =
  import_module :: "'i \<Rightarrow> pystr \<Rightarrow> pystr list \<Rightarrow> exc option \<times> 'i"
  import_from :: "'i \<Rightarrow> pystr \<Rightarrow> pystr \<Rightarrow> exc option \<times> 'i"
  issubclass_mainwindow_mixin :: "'i \<Rightarrow> exc + bool"
  hasattr_mainwindow :: "'i \<Rightarrow> pystr \<Rightarrow> exc + bool"
  open_read :: "path \<Rightarrow> exc + pystr"

subsection \<open>The checks\<close>

text \<open>
  A check gives the lines it prints and either the exception that leaves it or its
  (passed, failed) pair; a check that imports also gives the interpreter state it
  leaves.
\<close>

type_synonym check_result = "pystr list \<times> (exc + int \<times> int)"

definition check_import :: "'i site \<Rightarrow> pystr \<Rightarrow> pystr \<Rightarrow> int \<Rightarrow> 'i \<Rightarrow> check_result \<times> 'i" where
  "check_import s module_path component_name check_num i =
    (case import_module s i module_path [component_name] of
       (Some e, i') \<Rightarrow>
         (if is_ImportError e then
            (([sym_fail @ lit '' Check '' @ str_int check_num @ lit '': '' @ component_name
                 @ lit '' import failed: '' @ exc_str e], Inr (0, 1)), i')
          else (([], Inl e), i'))
     | (None, i') \<Rightarrow>
         (([sym_ok @ lit '' Check '' @ str_int check_num @ lit '': '' @ component_name
              @ lit '' importable''], Inr (1, 0)), i'))"

definition import_checks :: "(pystr \<times> pystr \<times> int) list" where
  "import_checks =
    [(lit ''tidal_dl_ng.gui.playlist_membership_mixin'', lit ''PlaylistMembershipMixin'', 1),
     (lit ''tidal_dl_ng.gui.playlist_membership'', lit ''PlaylistContextLoader'', 2),
     (lit ''tidal_dl_ng.gui.playlist_membership'', lit ''ThreadSafePlaylistCache'', 3),
     (lit ''tidal_dl_ng.gui.playlist_membership'', lit ''PlaylistColumnDelegate'', 4),
     (lit ''tidal_dl_ng.ui.dialog_playlist_manager'', lit ''PlaylistManagerDialog'', 5)]"

text \<open>
  \<open>passed, failed = check(); total_passed += passed; total_failed += failed\<close>: the step
  that runs a check in the current interpreter state and adds its result to the running
  totals, unless an exception already left the function (then nothing more runs).
\<close>

definition add_check ::
  "check_result \<times> 'i \<Rightarrow> ('i \<Rightarrow> check_result \<times> 'i) \<Rightarrow> check_result \<times> 'i" where
  "add_check acc check =
    (case acc of
       ((out, Inl e), i) \<Rightarrow> ((out, Inl e), i)
     | ((out, Inr (total_passed, total_failed)), i) \<Rightarrow>
         (case check i of
            ((printed, Inl e), i') \<Rightarrow> ((out @ printed, Inl e), i')
          | ((printed, Inr (n_passed, n_failed)), i') \<Rightarrow>
              ((out @ printed, Inr (total_passed + n_passed, total_failed + n_failed)), i')))"

definition run_all_import_checks :: "'i site \<Rightarrow> 'i \<Rightarrow> check_result \<times> 'i" where
  "run_all_import_checks s i =
    foldl (\<lambda>acc (module_path, component_name, check_num).
             add_check acc (check_import s module_path component_name check_num))
      (([], Inr (0, 0)), i) import_checks"

text \<open>The \<open>except Exception\<close> clause of check 6, and that of check 7.\<close>

definition inheritance_except :: "exc \<Rightarrow> check_result" where
  "inheritance_except e =
    (if is_Exception e then
       ([sym_fail @ lit '' Check 6: MainWindow inheritance check failed: '' @ exc_str e],
        Inr (0, 1))
     else ([], Inl e))"

definition method_except :: "exc \<Rightarrow> check_result" where
  "method_except e =
    (if is_Exception e then
       ([sym_fail @ lit '' Check 7: Method check failed: '' @ exc_str e], Inr (0, 1))
     else ([], Inl e))"

definition check_mainwindow_inheritance :: "'i site \<Rightarrow> 'i \<Rightarrow> check_result \<times> 'i" where
  "check_mainwindow_inheritance s i =
    (case import_from s i (lit ''tidal_dl_ng.gui.main_window'') (lit ''MainWindow'') of
       (Some e, i1) \<Rightarrow> (inheritance_except e, i1)
     | (None, i1) \<Rightarrow>
         (case import_from s i1 (lit ''tidal_dl_ng.gui.playlist_membership_mixin'')
                 (lit ''PlaylistMembershipMixin'') of
            (Some e, i2) \<Rightarrow> (inheritance_except e, i2)
          | (None, i2) \<Rightarrow>
              (case issubclass_mainwindow_mixin s i2 of
                 Inr True \<Rightarrow>
                   (([sym_ok @ lit '' Check 6: MainWindow has PlaylistMembershipMixin''],
                     Inr (1, 0)), i2)
               | Inr False \<Rightarrow>
                   (([sym_fail
                        @ lit '' Check 6: MainWindow does not inherit PlaylistMembershipMixin''],
                     Inr (0, 1)), i2)
               | Inl e \<Rightarrow> (inheritance_except e, i2))))"

definition check_method_exists :: "'i site \<Rightarrow> 'i \<Rightarrow> check_result \<times> 'i" where
  "check_method_exists s i =
    (case import_from s i (lit ''tidal_dl_ng.gui.main_window'') (lit ''MainWindow'') of
       (Some e, i1) \<Rightarrow> (method_except e, i1)
     | (None, i1) \<Rightarrow>
         (case hasattr_mainwindow s i1 (lit ''init_playlist_membership_manager'') of
            Inr True \<Rightarrow>
              (([sym_ok @ lit '' Check 7: init_playlist_membership_manager method exists''],
                Inr (1, 0)), i1)
          | Inr False \<Rightarrow>
              (([sym_fail @ lit '' Check 7: init_playlist_membership_manager method not found''],
                Inr (0, 1)), i1)
          | Inl e \<Rightarrow> (method_except e, i1)))"

definition check_file_content ::
  "'i site \<Rightarrow> path \<Rightarrow> pystr \<Rightarrow> int \<Rightarrow> pystr \<Rightarrow> pystr \<Rightarrow> check_result" where
  "check_file_content s file_path search_str check_num success_msg fail_msg =
    (case open_read s file_path of
       Inr content \<Rightarrow>
         (if str_in search_str content then
            ([sym_ok @ lit '' Check '' @ str_int check_num @ lit '': '' @ success_msg], Inr (1, 0))
          else
            ([sym_fail @ lit '' Check '' @ str_int check_num @ lit '': '' @ fail_msg], Inr (0, 1)))
     | Inl e \<Rightarrow>
         (if is_Exception e then
            ([sym_fail @ lit '' Check '' @ str_int check_num @ lit '': File check failed: ''
                @ exc_str e], Inr (0, 1))
          else ([], Inl e)))"

subsection \<open>The verifier\<close>

definition gui_file :: "path \<Rightarrow> pystr \<Rightarrow> path" where
  "gui_file project_root f = joinpath (joinpath (joinpath project_root (lit ''tidal_dl_ng'')) (lit ''gui'')) f"

definition verifier_header :: "pystr list" where
  "verifier_header =
    [sym_search @ lit '' V'' @ [0xE9] @ lit ''rification de l'' @ [39] @ lit ''int'' @ [0xE9]
       @ lit ''gration du Playlist Membership Manager'' @ [10],
     rule70]"

text \<open>The three file checks of \<open>check_integration\<close>, with their arguments.\<close>

definition check_8 :: "'i site \<Rightarrow> path \<Rightarrow> check_result" where
  "check_8 s project_root =
    check_file_content s (gui_file project_root (lit ''trees_results.py''))
      (lit ''child_playlists'') 8
      (lit ''child_playlists column added to TreesResultsMixin'')
      (lit ''child_playlists column NOT found in TreesResultsMixin'')"

definition check_9 :: "'i site \<Rightarrow> path \<Rightarrow> check_result" where
  "check_9 s project_root =
    check_file_content s (gui_file project_root (lit ''tidal_session.py''))
      (lit ''init_playlist_membership_manager'') 9
      (lit ''init_playlist_membership_manager called in init_tidal'')
      (lit ''init_playlist_membership_manager NOT called in init_tidal'')"

definition check_10 :: "'i site \<Rightarrow> path \<Rightarrow> check_result" where
  "check_10 s project_root =
    check_file_content s (gui_file project_root (lit ''playlist_membership_mixin.py''))
      (lit ''PlaylistCellState'') 10
      (lit ''PlaylistCellState imported in mixin'')
      (lit ''PlaylistCellState NOT imported in mixin'')"

text \<open>
  \<open>check_integration\<close> up to its summary, started in the interpreter state \<open>i0\<close>: the
  header, then the ten checks added to \<open>checks_passed\<close> and \<open>checks_failed\<close>.
\<close>

definition integration_counts :: "'i site \<Rightarrow> path \<Rightarrow> 'i \<Rightarrow> check_result" where
  "integration_counts s project_root i0 =
    (let acc0 = ((verifier_header, Inr (0, 0)), i0);
         acc1 = add_check acc0 (run_all_import_checks s);
         acc2 = add_check acc1 (check_mainwindow_inheritance s);
         acc3 = add_check acc2 (check_method_exists s);
         acc4 = add_check acc3 (\<lambda>i. (check_8 s project_root, i));
         acc5 = add_check acc4 (\<lambda>i. (check_9 s project_root, i))
     in fst (add_check acc5 (\<lambda>i. (check_10 s project_root, i))))"

text \<open>The summary and the exit code, from the two counters.\<close>

definition summary :: "int \<Rightarrow> int \<Rightarrow> pystr list \<times> int" where
  "summary checks_passed checks_failed =
    (let out = [10 # rule70,
                10 # sym_chart @ lit '' R'' @ [0xE9] @ lit ''sultat: '' @ str_int checks_passed
                  @ lit '' '' @ sym_ok @ lit ''  /  '' @ str_int checks_failed @ lit '' ''
                  @ sym_fail @ [10]]
     in
       if checks_failed = 0 then
         (out @ [sym_party @ lit '' INT'' @ [0xC9] @ lit ''GRATION COMPL'' @ [0xC8]
                   @ lit ''TE - Tous les checks sont pass'' @ [0xE9] @ lit ''s!''], 0)
       else
         (out @ [sym_warn @ lit ''  '' @ str_int checks_failed @ lit '' probl'' @ [0xE8]
                   @ lit ''me(s) d'' @ [0xE9] @ lit ''tect'' @ [0xE9] @ lit ''(s)''], 1))"

definition check_integration :: "'i site \<Rightarrow> path \<Rightarrow> 'i \<Rightarrow> pystr list \<times> (exc + int)" where
  "check_integration s project_root i0 =
    (case integration_counts s project_root i0 of
       (out, Inl e) \<Rightarrow> (out, Inl e)
     | (out, Inr (checks_passed, checks_failed)) \<Rightarrow>
         (out @ fst (summary checks_passed checks_failed),
          Inr (snd (summary checks_passed checks_failed))))"

subsection \<open>The ten checks as a list, and example sites\<close>

text \<open>
  The ten check calls of \<open>check_integration\<close> in the order they run, and the results they
  give when each starts in the interpreter state its predecessor left. The verifier
  adds these results up in order (lemma \<open>integration_counts_fold\<close>); once an exception
  has left it the code runs no further check, and the fold ignores the later entries.
\<close>

definition checks_list :: "'i site \<Rightarrow> path \<Rightarrow> ('i \<Rightarrow> check_result \<times> 'i) list" where
  "checks_list s project_root =
    map (\<lambda>(module_path, component_name, check_num).
           check_import s module_path component_name check_num) import_checks
    @ [check_mainwindow_inheritance s,
       check_method_exists s,
       (\<lambda>i. (check_8 s project_root, i)),
       (\<lambda>i. (check_9 s project_root, i)),
       (\<lambda>i. (check_10 s project_root, i))]"

fun thread :: "('i \<Rightarrow> 'a \<times> 'i) list \<Rightarrow> 'i \<Rightarrow> 'a list" where
  "thread [] i = []"
| "thread (c # cs) i = (case c i of (r, i') \<Rightarrow> r # thread cs i')"

definition ten_checks :: "'i site \<Rightarrow> path \<Rightarrow> 'i \<Rightarrow> check_result list" where
  "ten_checks s project_root i0 = thread (checks_list s project_root) i0"

text \<open>Adding one result to the totals, as \<open>add_check\<close> does with the result of the check it runs.\<close>

definition add_result :: "check_result \<Rightarrow> check_result \<Rightarrow> check_result" where
  "add_result acc r =
    (case acc of
       (out, Inl e) \<Rightarrow> (out, Inl e)
     | (out, Inr (total_passed, total_failed)) \<Rightarrow>
         (case r of
            (printed, Inl e) \<Rightarrow> (out @ printed, Inl e)
          | (printed, Inr (n_passed, n_failed)) \<Rightarrow>
              (out @ printed, Inr (total_passed + n_passed, total_failed + n_failed))))"

definition outcome_ok :: "check_result \<Rightarrow> bool" where
  "outcome_ok r = (snd r = Inr (1, 0) \<or> snd r = Inr (0, 1) \<or> (\<exists>e. snd r = Inl e))"

text \<open>
  Example sites, with the list of the modules whose import was attempted as interpreter
  state: one where every probe succeeds, one where the first module is missing, one
  where importing a module raises a syntax error, and one where the first import of the
  mixin module raises \<open>ImportError\<close> (its one-time initialisation fails) and the later
  ones succeed.
\<close>

definition site_ok :: "pystr list site" where
  "site_ok =
    \<lparr>import_module = (\<lambda>i m fromlist. (None, m # i)),
     import_from = (\<lambda>i m n. (None, m # i)),
     issubclass_mainwindow_mixin = (\<lambda>i. Inr True),
     hasattr_mainwindow = (\<lambda>i n. Inr True),
     open_read = (\<lambda>p. Inr (lit ''child_playlists init_playlist_membership_manager PlaylistCellState''))\<rparr>"

definition site_no_mixin :: "pystr list site" where
  "site_no_mixin =
    site_ok\<lparr>import_module :=
      (\<lambda>i m fromlist.
         if m = lit ''tidal_dl_ng.gui.playlist_membership_mixin''
         then (Some (Exc ModuleNotFoundError (lit ''No module named x'')), m # i)
         else (None, m # i))\<rparr>"

definition site_crash :: "pystr list site" where
  "site_crash =
    site_ok\<lparr>import_module :=
      (\<lambda>i m fromlist. (Some (Exc SyntaxError (lit ''invalid syntax'')), m # i))\<rparr>"

definition first_import_fails :: "pystr list \<Rightarrow> pystr \<Rightarrow> exc option \<times> pystr list" where
  "first_import_fails i m =
    (if m = lit ''tidal_dl_ng.gui.playlist_membership_mixin'' \<and> m \<notin> set i
     then (Some (Exc ImportError (lit ''initialisation failed'')), m # i)
     else (None, m # i))"

definition site_flaky :: "pystr list site" where
  "site_flaky =
    site_ok\<lparr>import_module := (\<lambda>i m fromlist. first_import_fails i m),
            import_from := (\<lambda>i m n. first_import_fails i m)\<rparr>"


subsection \<open>A further example repository\<close>

text \<open>A repository whose files exist and cannot be decoded.\<close>

definition world_unreadable :: world where
  "world_unreadable =
    \<lparr>uni_alnum = (\<lambda>c. False),
     ast_walk = (\<lambda>content. Inr []),
     path_exists = (\<lambda>p. True),
     read_text = (\<lambda>p. Inl (Exc UnicodeDecodeError (lit ''invalid start byte'')))\<rparr>"

section \<open>Properties of the compliance checker\<close>

lemma report_code:
  "snd (report st out) = (if filter (\<lambda>i. severity i = 2) (issues st) = [] then 0 else 1)"
  by (simp add: report_def Let_def)

text \<open>
  C1. The exit code returned by \<open>report\<close> is 0 exactly when the accumulated issues hold
  no tuple of severity 2, it is 1 otherwise, and issues of severity 1 alone never make
  it non-zero.
\<close>

theorem report_exit_code:
  "(snd (report st out) = 0 \<longleftrightarrow> (\<forall>i \<in> set (issues st). severity i \<noteq> 2))
   \<and> (snd (report st out) = 0 \<or> snd (report st out) = 1)
   \<and> ((\<forall>i \<in> set (issues st). severity i = 1) \<longrightarrow> snd (report st out) = 0)"
  by (auto simp add: report_code filter_empty_conv)

theorem report_exit_code_witness:
  "snd (report \<lparr>issues = [(lit ''a.py'', lit ''long line'', 1)], passed = []\<rparr> []) = 0
   \<and> snd (report \<lparr>issues = [(lit ''a.py'', lit ''bare except'', 2)], passed = []\<rparr> []) \<noteq> 0"
  using report_exit_code [of "\<lparr>issues = [(lit ''a.py'', lit ''long line'', 1)], passed = []\<rparr>" "[]"]
        report_exit_code [of "\<lparr>issues = [(lit ''a.py'', lit ''bare except'', 2)], passed = []\<rparr>" "[]"]
  by (simp add: severity_def)


lemma search_from_append:
  "(\<And>prev. match_here ua p prev s \<noteq> None) \<Longrightarrow> search_from ua p prev (pre @ s)"
proof (induction pre arbitrary: prev)
  case Nil
  then show ?case by (cases s) simp_all
next
  case (Cons c pre)
  then show ?case by simp
qed

lemma star_zero:
  "match_here ua p prev s \<noteq> None \<Longrightarrow> match_here ua (Star a # p) prev s \<noteq> None"
  by (cases s) (auto split: option.splits)

lemma star_step:
  "cls_match a c \<Longrightarrow> match_here ua (Star a # p) (Some c) cs \<noteq> None \<Longrightarrow>
     match_here ua (Star a # p) prev (c # cs) \<noteq> None"
  by (auto split: option.splits)



lemma optional_match:
  assumes "post = [] \<or> \<not> is_word ua (hd post)"
  shows "match_here ua (typing_pattern ''Optional'') prev (lit ''from typing import Optional'' @ post) \<noteq> None"
proof -
  let ?P = "WordB # re_lits ''Optional'' @ [WordB]"
  have b: "boundary ua (Some 108) post"
    using assms by (cases post) (auto simp add: boundary_def is_word_def)
  have "match_here ua ?P (Some 32) (lit ''Optional'' @ post) \<noteq> None"
    using b by (simp add: re_lits_def lit_def boundary_def is_word_def)
  then have "match_here ua (Star Dot # ?P) (Some 32) (lit ''Optional'' @ post) \<noteq> None"
    by (rule star_zero)
  then have "match_here ua (Star Dot # ?P) (Some 116) (32 # lit ''Optional'' @ post) \<noteq> None"
    by (intro star_step) simp_all
  then show ?thesis
    by (simp add: typing_pattern_def re_lits_def lit_def)
qed

lemma optional_search:
  assumes "post = [] \<or> \<not> is_word ua (hd post)"
  shows "re_search ua (typing_pattern ''Optional'') (pre @ lit ''from typing import Optional'' @ post)"
  unfolding re_search_def by (rule search_from_append) (rule optional_match [OF assms])


lemma issues_add [simp]:
  "issues (add_passed m st) = issues st"
  "issues (add_issue i st) = issues st @ [i]"
  "passed (add_passed m st) = passed st @ [m]"
  "passed (add_issue i st) = passed st"
  by (simp_all add: add_passed_def add_issue_def)


lemma issues_union_types: "issues (check_union_types fp content st) = issues st"
  by (simp add: check_union_types_def)







lemma issues_thread_safety: "issues (check_thread_safety fp content st) = issues st"
  by (simp add: check_thread_safety_def Let_def)

lemma issues_logging: "issues (check_logging fp content st) = issues st"
  by (simp add: check_logging_def)










lemma deprecated_names: "(pattern, name) \<in> set deprecated \<Longrightarrow> name \<in> set (map snd deprecated)"
  by force

text \<open>
  C4 (amended). For a file whose content contains \<open>from typing import Optional\<close> with no
  word character (letter, digit or underscore) right after it, the deprecated-typing
  check records exactly one issue, of severity 2, naming one of the six deprecated
  imports, however many of them the file holds; it adds nothing to the passed list.
\<close>

theorem deprecated_optional_is_error:
  assumes "content = pre @ lit ''from typing import Optional'' @ post"
    and "post = [] \<or> \<not> is_word ua (hd post)"
  shows "\<exists>name. name \<in> set (map snd deprecated)
           \<and> issues (check_no_deprecated_typing ua fp content st)
               = issues st @ [(fp, deprecated_msg name, 2)]
           \<and> passed (check_no_deprecated_typing ua fp content st) = passed st"
proof -
  have "(typing_pattern ''Optional'', lit ''Optional'') \<in> set deprecated"
    by (simp add: deprecated_def)
  moreover have "re_search ua (typing_pattern ''Optional'') content"
    unfolding assms(1) by (rule optional_search [OF assms(2)])
  ultimately have "\<exists>x. x \<in> set deprecated \<and> (\<lambda>(pattern, name). re_search ua pattern content) x"
    by (intro exI [of _ "(typing_pattern ''Optional'', lit ''Optional'')"]) simp
  then have "find (\<lambda>(pattern, name). re_search ua pattern content) deprecated \<noteq> None"
    by (simp add: find_None_iff)
  then obtain pattern name where
    f: "find (\<lambda>(pattern, name). re_search ua pattern content) deprecated = Some (pattern, name)"
    by auto
  then have "(pattern, name) \<in> set deprecated"
    by (auto simp add: find_Some_iff in_set_conv_nth)
  then have "name \<in> set (map snd deprecated)" by (rule deprecated_names)
  with f show ?thesis
    by (auto simp add: check_no_deprecated_typing_def deprecated_msg_def)
qed

theorem deprecated_optional_is_error_witness:
  "issues (check_no_deprecated_typing (\<lambda>c. False) (lit ''a.py'')
             (lit ''from typing import Optional, List'' @ [10]) init_checker)
     = [(lit ''a.py'', deprecated_msg (lit ''List''), 2)]"
  using deprecated_optional_is_error [of "lit ''from typing import Optional, List'' @ [10]" "[]"
      "lit '', List'' @ [10]" "\<lambda>c. False" "lit ''a.py''" init_checker]
  by (simp add: check_no_deprecated_typing_def deprecated_def re_search_def typing_pattern_def
      re_lits_def lit_def boundary_def is_word_def init_checker_def deprecated_msg_def)

text \<open>
  C4, as first stated, fails when a word character follows: this content contains the
  text \<open>from typing import Optional\<close>, the pattern's closing \<open>\b\<close> rejects it, and the
  check records no issue.
\<close>

theorem deprecated_optional_counterexample:
  "str_in (lit ''from typing import Optional'') (lit ''from typing import Optionals'')
   \<and> issues (check_no_deprecated_typing (\<lambda>c. False) (lit ''a.py'')
        (lit ''from typing import Optionals'') init_checker) = []"
  by (simp add: check_no_deprecated_typing_def deprecated_def re_search_def typing_pattern_def
      re_lits_def lit_def boundary_def is_word_def init_checker_def)

lemma docstring_no_match:
  "match_here ua docstring_pattern prev [] = None"
  "c \<noteq> 34 \<Longrightarrow> match_here ua docstring_pattern prev (c # cs) = None"
  by (simp_all add: docstring_pattern_def)

lemma star_run:
  assumes "\<forall>c \<in> set b. cls_match a c" and "\<And>prev'. match_here ua (Star a # p) prev' s = Some (q, r)"
  shows "match_here ua (Star a # p) prev (b @ s) = Some (q, r)"
  using assms(1)
proof (induction b arbitrary: prev)
  case Nil
  then show ?case by (simp add: assms(2))
next
  case (Cons c b)
  then show ?case by simp
qed

lemma docstring_block_match:
  assumes "34 \<notin> set body"
  shows "match_here ua docstring_pattern prev (q3 @ body @ q3 @ rest) = Some (Some 34, rest)"
proof -
  let ?p = "[One (Chr 34), One (Chr 34), One (Chr 34)]"
  have tail: "match_here ua (Star (NotRanges [(34, 34)]) # ?p) prev' (q3 @ rest) = Some (Some 34, rest)" for prev'
    by (simp add: q3_def)
  have run: "\<forall>c \<in> set body. cls_match (NotRanges [(34, 34)]) c"
    using assms by auto
  have "match_here ua (Star (NotRanges [(34, 34)]) # ?p) (Some 34) (body @ q3 @ rest)
      = Some (Some 34, rest)"
    using run tail by (rule star_run)
  then show ?thesis by (simp add: docstring_pattern_def q3_def)
qed

lemma findall_skip:
  assumes "34 \<notin> set sep"
  shows "findall_from ua docstring_pattern prev (sep @ [])  = 0"
  using assms
proof (induction sep arbitrary: prev)
  case Nil
  then show ?case by (simp add: findall_from.simps docstring_no_match)
next
  case (Cons c sep)
  then show ?case by (simp add: findall_from.simps [of _ _ _ "c # sep"] docstring_no_match)
qed

lemma findall_blocks:
  assumes "34 \<notin> set sep0" and "\<forall>(b, sep) \<in> set bs. 34 \<notin> set b \<and> 34 \<notin> set sep"
  shows "findall_from ua docstring_pattern prev (blocks_text sep0 bs) = length bs"
  using assms
proof (induction bs arbitrary: sep0 prev)
  case Nil
  then show ?case using findall_skip [of sep0 ua prev] by (simp add: blocks_text_def)
next
  case (Cons x bs)
  obtain b sep where x: "x = (b, sep)" by (cases x)
  with Cons.prems have b: "34 \<notin> set b" and sep: "34 \<notin> set sep"
    and rest: "\<forall>(b, sep) \<in> set bs. 34 \<notin> set b \<and> 34 \<notin> set sep" by auto
  let ?rest = "blocks_text sep bs"
  have step: "findall_from ua docstring_pattern prev' (q3 @ b @ q3 @ ?rest) = Suc (length bs)" for prev'
  proof -
    have m: "match_here ua docstring_pattern prev' (q3 @ b @ q3 @ ?rest) = Some (Some 34, ?rest)"
      by (rule docstring_block_match [OF b])
    have l: "length ?rest < length (q3 @ b @ q3 @ ?rest)"
      by (simp add: q3_def)
    have "findall_from ua docstring_pattern prev' (q3 @ b @ q3 @ ?rest)
        = 1 + findall_from ua docstring_pattern (Some 34) ?rest"
      by (subst findall_from.simps) (simp only: m l option.case prod.case if_True)
    then show ?thesis using Cons.IH [OF sep rest] by simp
  qed
  have "findall_from ua docstring_pattern prev (sep0 @ q3 @ b @ q3 @ ?rest) = Suc (length bs)"
    using Cons.prems(1)
  proof (induction sep0 arbitrary: prev)
    case Nil
    then show ?case by (simp add: step)
  next
    case (Cons c sep0)
    then show ?case
      by (simp add: findall_from.simps [of _ _ _ "c # sep0 @ q3 @ b @ q3 @ ?rest"] docstring_no_match)
  qed
  then show ?case by (simp add: blocks_text_def x)
qed

text \<open>
  C5 (amended). The docstring-count check passes, adding one message to the passed list
  and no issue, when the pattern finds more than five blocks from left to right without
  overlap, a block being three double quotes, a text free of double quotes and three
  double quotes; otherwise it records exactly one issue, of severity 1. A file built
  from such blocks, with no double quote between them, counts one per block.
\<close>

theorem docstring_count_check:
  "(5 < doc_count ua content \<longrightarrow>
      issues (check_docstrings ua fp content st) = issues st
      \<and> (\<exists>m. passed (check_docstrings ua fp content st) = passed st @ [m]))
   \<and> (\<not> 5 < doc_count ua content \<longrightarrow>
      (\<exists>m. issues (check_docstrings ua fp content st) = issues st @ [(fp, m, 1)])
      \<and> passed (check_docstrings ua fp content st) = passed st)
   \<and> (34 \<notin> set sep0 \<and> (\<forall>(b, sep) \<in> set bs. 34 \<notin> set b \<and> 34 \<notin> set sep) \<longrightarrow>
      doc_count ua (blocks_text sep0 bs) = length bs)"
  by (simp add: check_docstrings_def doc_count_def findall_count_def findall_blocks)

theorem docstring_count_check_witness:
  "doc_count (\<lambda>c. False) (blocks_text (lit ''x = 1'' @ [10]) (replicate 6 (lit ''doc'', [10]))) = 6
   \<and> issues (check_docstrings (\<lambda>c. False) (lit ''a.py'')
        (blocks_text (lit ''x = 1'' @ [10]) (replicate 6 (lit ''doc'', [10]))) init_checker) = []"
  using docstring_count_check [of "\<lambda>c. False"
      "blocks_text (lit ''x = 1'' @ [10]) (replicate 6 (lit ''doc'', [10]))" "lit ''a.py''"
      init_checker "lit ''x = 1'' @ [10]" "replicate 6 (lit ''doc'', [10])"]
  by (simp add: lit_def init_checker_def)

text \<open>
  C5, as first stated, fails for docstrings the pattern does not see: six docstrings that
  each hold a quoted word count as five, six docstrings in triple single quotes count as
  none, and both files get the warning.
\<close>

lemma quoted_docstrings_count: "doc_count (\<lambda>c. False) quoted_docstrings = 5"
  by code_simp

lemma single_quoted_count: "doc_count ua single_quoted_docstrings = 0"
proof -
  have "34 \<notin> set single_quoted_docstrings"
    by (simp add: single_quoted_docstrings_def lit_def)
  from findall_skip [OF this] show ?thesis
    by (simp add: doc_count_def findall_count_def)
qed

text \<open>Two files with six triple-quoted docstrings each, both warned.\<close>

theorem docstring_count_counterexample:
  "doc_count (\<lambda>c. False) quoted_docstrings = 5
   \<and> map severity (issues (check_docstrings (\<lambda>c. False) (lit ''a.py'') quoted_docstrings
          init_checker)) = [1]
   \<and> doc_count (\<lambda>c. False) single_quoted_docstrings = 0
   \<and> map severity (issues (check_docstrings (\<lambda>c. False) (lit ''a.py'') single_quoted_docstrings
          init_checker)) = [1]"
  by (simp add: check_docstrings_def quoted_docstrings_count single_quoted_count severity_def
      init_checker_def)

text \<open>
  C10. The union-types, thread-safety and logging checks never touch the issues; the
  type-hints check, on any tree the parser returns, adds one passed message and no issue
  (functions without a return annotation included), and changes the issues only by the
  one syntax-error issue when the parser rejects the file.
\<close>

theorem silent_checks:
  "issues (check_union_types fp content st) = issues st
   \<and> issues (check_thread_safety fp content st) = issues st
   \<and> issues (check_logging fp content st) = issues st
   \<and> (ast_walk w content = Inr tree \<longrightarrow>
        (\<exists>m. check_type_hints w fp content st = Inr (add_passed m st)))
   \<and> (check_type_hints w fp content st = Inr st' \<and> issues st' \<noteq> issues st \<longrightarrow>
        (\<exists>e. ast_walk w content = Inl e \<and> is_SyntaxError e
           \<and> issues st' = issues st @ [(fp, sym_fail @ lit '' Syntax error: '' @ exc_str e, 2)]))"
  by (auto simp add: issues_union_types issues_thread_safety issues_logging check_type_hints_def
      Let_def split: sum.splits if_splits)

theorem silent_checks_witness:
  "check_type_hints world_untyped (lit ''a.py'') (lit ''def load(): pass'' @ [10]) init_checker
     = Inr (add_passed (sym_ok @ lit '' Most functions typed (a.py) - 1 without return hints'')
              init_checker)"
  using silent_checks [of "lit ''a.py''" "lit ''def load(): pass'' @ [10]" init_checker world_untyped
      "[OtherNode, FunctionDef (lit ''load'') None [], OtherNode]"]
  by (simp add: world_untyped_def check_type_hints_def untyped_function_def startswith_def
      path_name_def path_parts_def str_len_def str_int_def digits.simps lit_def)

section \<open>Properties of the integration verifier\<close>

lemma add_result_simps:
  "add_result (out, Inl e) r = (out, Inl e)"
  "add_result (out, Inr (p, f)) (printed, Inl e) = (out @ printed, Inl e)"
  "add_result (out, Inr (p, f)) (printed, Inr (a, b)) = (out @ printed, Inr (p + a, f + b))"
  by (simp_all add: add_result_def)

lemma foldl_add_result_Inl: "foldl add_result (out, Inl e) rs = (out, Inl e)"
  by (induction rs) (simp_all add: add_result_simps)

lemma add_check_Inl: "add_check ((out, Inl e), i) c = ((out, Inl e), i)"
  by (simp add: add_check_def)

lemma foldl_add_check_Inl: "foldl add_check ((out, Inl e), i) cs = ((out, Inl e), i)"
  by (induction cs) (simp_all add: add_check_Inl)

text \<open>The step of the verifier adds the result of the check it runs and keeps the state the check leaves.\<close>

lemma add_check_Inr:
  "add_check ((out, Inr pf), i) c = (add_result (out, Inr pf) (fst (c i)), snd (c i))"
  by (cases pf; cases "c i") (auto simp add: add_check_def add_result_def split: sum.splits prod.splits)

lemma fst_foldl_add_check:
  "fst (foldl add_check ((out, v), i) cs) = foldl add_result (out, v) (thread cs i)"
proof (induction cs arbitrary: out v i)
  case Nil
  show ?case by simp
next
  case (Cons c cs)
  show ?case
  proof (cases v)
    case (Inl e)
    then show ?thesis by (simp add: add_check_Inl foldl_add_check_Inl foldl_add_result_Inl)
  next
    case (Inr pf)
    obtain r i' where c: "c i = (r, i')" by (cases "c i")
    obtain out' v' where a: "add_result (out, Inr pf) r = (out', v')"
      by (cases "add_result (out, Inr pf) r")
    from Inr c a show ?thesis by (simp add: add_check_Inr Cons.IH)
  qed
qed

lemma add_check_assoc:
  "add_check acc (\<lambda>j. add_check (F j) c) = add_check (add_check acc F) c"
proof -
  obtain out v i where acc: "acc = ((out, v), i)" by (cases acc) auto
  show ?thesis
  proof (cases v)
    case (Inl e)
    with acc show ?thesis by (simp add: add_check_Inl)
  next
    case (Inr pf)
    obtain out1 v1 i1 where F: "F i = ((out1, v1), i1)" by (cases "F i") auto
    show ?thesis
    proof (cases v1)
      case (Inl e)
      with acc Inr F show ?thesis
        by (cases pf) (simp add: add_check_Inr add_check_Inl add_result_simps)
    next
      case v1: (Inr pf1)
      obtain r i2 where c: "c i1 = (r, i2)" by (cases "c i1")
      obtain pr vr where r: "r = (pr, vr)" by (cases r)
      from acc Inr F v1 c r show ?thesis
        by (cases pf; cases pf1; cases vr)
          (auto simp add: add_check_Inr add_result_simps)
    qed
  qed
qed

lemma add_check_unit: "add_check acc (\<lambda>j. (([], Inr (0, 0)), j)) = acc"
  by (auto simp add: add_check_def split: sum.splits prod.splits)

lemma add_check_foldl:
  "add_check acc (\<lambda>j. foldl add_check (([], Inr (0, 0)), j) cs) = foldl add_check acc cs"
proof (induction cs rule: rev_induct)
  case Nil
  show ?case by (simp add: add_check_unit)
next
  case (snoc c cs)
  then show ?case by (simp add: add_check_assoc)
qed

lemma run_all_import_checks_fold:
  "run_all_import_checks s =
     (\<lambda>j. foldl add_check (([], Inr (0, 0)), j)
            (map (\<lambda>(m, c, n). check_import s m c n) import_checks))"
  by (rule ext) (simp add: run_all_import_checks_def foldl_map case_prod_unfold)

lemma integration_counts_fold:
  "integration_counts s root i0
     = foldl add_result (verifier_header, Inr (0, 0)) (ten_checks s root i0)"
proof -
  have "integration_counts s root i0
      = fst (foldl add_check ((verifier_header, Inr (0, 0)), i0) (checks_list s root))"
    unfolding integration_counts_def Let_def checks_list_def foldl_append
      run_all_import_checks_fold add_check_foldl
    by simp
  then show ?thesis by (simp add: fst_foldl_add_check ten_checks_def)
qed

lemma check_import_ok: "outcome_ok (fst (check_import s m c n i))"
  by (simp add: check_import_def outcome_ok_def split: option.splits prod.splits)

lemma inheritance_except_ok: "outcome_ok (inheritance_except e)"
  by (simp add: inheritance_except_def outcome_ok_def)

lemma method_except_ok: "outcome_ok (method_except e)"
  by (simp add: method_except_def outcome_ok_def)

lemma check_mainwindow_inheritance_ok: "outcome_ok (fst (check_mainwindow_inheritance s i))"
  using inheritance_except_ok
  by (auto simp add: check_mainwindow_inheritance_def outcome_ok_def
      split: option.splits sum.splits bool.splits prod.splits)

lemma check_method_exists_ok: "outcome_ok (fst (check_method_exists s i))"
  using method_except_ok
  by (auto simp add: check_method_exists_def outcome_ok_def
      split: option.splits sum.splits bool.splits prod.splits)

lemma check_file_content_ok: "outcome_ok (check_file_content s p x n a b)"
  by (simp add: check_file_content_def outcome_ok_def split: option.splits sum.splits bool.splits)

lemma thread_ok:
  "(\<And>c i. c \<in> set cs \<Longrightarrow> outcome_ok (fst (c i))) \<Longrightarrow> r \<in> set (thread cs i) \<Longrightarrow> outcome_ok r"
proof (induction cs arbitrary: i)
  case Nil
  then show ?case by simp
next
  case (Cons c cs)
  obtain r0 i' where c: "c i = (r0, i')" by (cases "c i")
  from Cons.prems(2) c have "r = r0 \<or> r \<in> set (thread cs i')" by simp
  then show ?case
  proof
    assume "r = r0"
    with Cons.prems(1) [of c i] c show ?thesis by simp
  next
    assume "r \<in> set (thread cs i')"
    with Cons.IH [of i'] Cons.prems(1) show ?thesis by simp
  qed
qed

lemma checks_list_ok: "c \<in> set (checks_list s root) \<Longrightarrow> outcome_ok (fst (c i))"
  by (auto simp add: checks_list_def import_checks_def check_import_ok
      check_mainwindow_inheritance_ok check_method_exists_ok check_file_content_ok
      check_8_def check_9_def check_10_def)

lemma ten_checks_ok: "r \<in> set (ten_checks s root i0) \<Longrightarrow> outcome_ok r"
  unfolding ten_checks_def using checks_list_ok by (rule thread_ok)

lemma ten_checks_all_ok: "\<forall>r \<in> set (ten_checks s root i0). outcome_ok r"
  by (rule ballI) (rule ten_checks_ok)

lemma length_thread: "length (thread cs i) = length cs"
  by (induction cs arbitrary: i) (simp_all split: prod.splits)

lemma length_ten_checks: "length (ten_checks s root i0) = 10"
  unfolding ten_checks_def length_thread by (simp add: checks_list_def import_checks_def)

lemma fold_counts:
  "\<forall>r \<in> set rs. outcome_ok r \<Longrightarrow> snd (foldl add_result (out, Inr (p, f)) rs) = Inr (p', f') \<Longrightarrow>
     p' + f' = p + f + int (length rs) \<and> f \<le> f' \<and> p \<le> p'
     \<and> (f' = f \<longleftrightarrow> (\<forall>r \<in> set rs. snd r = Inr (1, 0)))"
proof (induction rs arbitrary: out p f)
  case Nil
  then show ?case by simp
next
  case (Cons r rs)
  from Cons.prems(1) have ok: "outcome_ok r" and oks: "\<forall>r \<in> set rs. outcome_ok r" by simp_all
  obtain o1 v where r: "r = (o1, v)" by (cases r)
  show ?case
  proof (cases v)
    case (Inl e)
    with Cons.prems(2) r show ?thesis by (simp add: add_result_simps foldl_add_result_Inl)
  next
    case (Inr pf)
    with ok r have "pf = (1, 0) \<or> pf = (0, 1)" by (auto simp add: outcome_ok_def)
    then show ?thesis
    proof
      assume pf: "pf = (1, 0)"
      with Cons.prems(2) r Inr have "snd (foldl add_result (out @ o1, Inr (p + 1, f)) rs) = Inr (p', f')"
        by (simp add: add_result_simps)
      from Cons.IH [OF oks this] r Inr pf show ?thesis by auto
    next
      assume pf: "pf = (0, 1)"
      with Cons.prems(2) r Inr have "snd (foldl add_result (out @ o1, Inr (p, f + 1)) rs) = Inr (p', f')"
        by (simp add: add_result_simps)
      from Cons.IH [OF oks this] r Inr pf show ?thesis by auto
    qed
  qed
qed

lemma fold_all_pass:
  "\<forall>r \<in> set rs. snd r = Inr (1, 0) \<Longrightarrow>
     snd (foldl add_result (out, Inr (p, f)) rs) = Inr (p + int (length rs), f)"
proof (induction rs arbitrary: out p)
  case Nil
  then show ?case by simp
next
  case (Cons r rs)
  then show ?case by (cases r) (simp add: add_result_simps)
qed

text \<open>
  C2. \<open>check_integration\<close> returns exit code 0 exactly when all ten checks (five import
  checks, the inheritance check, the attribute check and three file checks) pass, and
  whenever it reaches its summary the code is 0 exactly when the failed count is zero.
\<close>

theorem check_integration_exit_code:
  "(snd (check_integration s root i0) = Inr 0 \<longleftrightarrow> (\<forall>r \<in> set (ten_checks s root i0). snd r = Inr (1, 0)))
   \<and> (integration_counts s root i0 = (out, Inr (p, f)) \<longrightarrow>
        snd (check_integration s root i0) = Inr (if f = 0 then 0 else 1))"
proof (intro conjI iffI impI)
  assume all: "\<forall>r \<in> set (ten_checks s root i0). snd r = Inr (1, 0)"
  have "snd (integration_counts s root i0) = Inr (10, 0)"
    using fold_all_pass [OF all, of verifier_header 0 0]
    by (simp add: integration_counts_fold length_ten_checks)
  then show "snd (check_integration s root i0) = Inr 0"
    by (cases "integration_counts s root i0") (simp add: check_integration_def summary_def Let_def)
next
  assume zero: "snd (check_integration s root i0) = Inr 0"
  obtain out' v where ic: "integration_counts s root i0 = (out', v)"
    by (cases "integration_counts s root i0")
  with zero obtain p' f' where v: "v = Inr (p', f')"
    by (cases v) (auto simp add: check_integration_def)
  with zero ic have "f' = 0"
    by (simp add: check_integration_def summary_def Let_def split: if_splits)
  moreover have "snd (foldl add_result (verifier_header, Inr (0, 0)) (ten_checks s root i0)) = Inr (p', f')"
    using ic v by (simp add: integration_counts_fold [symmetric])
  ultimately show "\<forall>r \<in> set (ten_checks s root i0). snd r = Inr (1, 0)"
    using fold_counts [of "ten_checks s root i0" verifier_header 0 0 p' f']
      ten_checks_all_ok [of s root i0] by blast
next
  assume "integration_counts s root i0 = (out, Inr (p, f))"
  then show "snd (check_integration s root i0) = Inr (if f = 0 then 0 else 1)"
    by (simp add: check_integration_def summary_def Let_def)
qed

lemmas verifier_eval =
  ten_checks_def checks_list_def import_checks_def check_import_def
  check_mainwindow_inheritance_def check_method_exists_def check_file_content_def
  check_8_def check_9_def check_10_def inheritance_except_def method_except_def
  site_ok_def site_no_mixin_def site_crash_def lit_def

theorem check_integration_exit_code_witness:
  "snd (check_integration site_ok [] []) = Inr 0
   \<and> snd (check_integration site_no_mixin [] []) \<noteq> Inr 0"
  using check_integration_exit_code [of site_ok "[]" "[]"]
        check_integration_exit_code [of site_no_mixin "[]" "[]"]
  by (simp add: verifier_eval)

text \<open>
  C9. Every one of the ten checks that returns gives (1, 0) or (0, 1), so when
  \<open>check_integration\<close> reaches its summary \<open>checks_passed + checks_failed = 10\<close>.
\<close>

theorem checks_sum_to_ten:
  "(\<forall>r \<in> set (ten_checks s root i0). snd r = Inr (1, 0) \<or> snd r = Inr (0, 1) \<or> (\<exists>e. snd r = Inl e))
   \<and> (integration_counts s root i0 = (out, Inr (p, f)) \<longrightarrow> p + f = 10 \<and> 0 \<le> p \<and> 0 \<le> f)"
proof (intro conjI impI ballI)
  fix r assume "r \<in> set (ten_checks s root i0)"
  then show "snd r = Inr (1, 0) \<or> snd r = Inr (0, 1) \<or> (\<exists>e. snd r = Inl e)"
    using ten_checks_ok by (simp add: outcome_ok_def)
next
  assume "integration_counts s root i0 = (out, Inr (p, f))"
  then have "snd (foldl add_result (verifier_header, Inr (0, 0)) (ten_checks s root i0)) = Inr (p, f)"
    by (simp add: integration_counts_fold [symmetric])
  moreover note ten_checks_all_ok [of s root i0]
  ultimately have "p + f = 0 + 0 + int (length (ten_checks s root i0)) \<and> 0 \<le> f \<and> 0 \<le> p"
    using fold_counts [of "ten_checks s root i0" verifier_header 0 0 p f] by blast
  then show "p + f = 10" "0 \<le> p" "0 \<le> f" by (simp_all add: length_ten_checks)
qed

theorem checks_sum_to_ten_witness:
  "snd (integration_counts site_no_mixin [] []) = Inr (9, 1) \<and> (9::int) + 1 = 10"
  using checks_sum_to_ten [of site_no_mixin "[]" "[]" "fst (integration_counts site_no_mixin [] [])" 9 1]
  by (simp add: integration_counts_fold add_result_simps verifier_eval)

section \<open>Exceptions and independence\<close>

text \<open>
  C6 (amended). An \<open>ImportError\<close> raised by the import of \<open>_check_import\<close>, an exception
  of class \<open>Exception\<close> raised by either import of check 6, by the import of check 7 or
  by the file read of \<open>_check_file_content\<close>, and a \<open>SyntaxError\<close> raised by the parser in
  the type-hints check are caught where they occur: the check prints one line that ends
  with the exception's text and returns (0, 1), and the type-hints check records one
  issue of severity 2 that ends with the text.
\<close>

theorem exceptions_caught:
  "(fst (import_module s i m [c]) = Some e \<and> is_ImportError e \<longrightarrow>
      (\<exists>line. suffix (exc_str e) line \<and> fst (check_import s m c n i) = ([line], Inr (0, 1))))
   \<and> (fst (import_from s i (lit ''tidal_dl_ng.gui.main_window'') (lit ''MainWindow'')) = Some e
        \<and> is_Exception e \<longrightarrow>
      (\<exists>line. suffix (exc_str e) line
         \<and> fst (check_mainwindow_inheritance s i) = ([line], Inr (0, 1)))
      \<and> (\<exists>line. suffix (exc_str e) line \<and> fst (check_method_exists s i) = ([line], Inr (0, 1))))
   \<and> (import_from s i (lit ''tidal_dl_ng.gui.main_window'') (lit ''MainWindow'') = (None, i1)
        \<and> fst (import_from s i1 (lit ''tidal_dl_ng.gui.playlist_membership_mixin'')
                 (lit ''PlaylistMembershipMixin'')) = Some e
        \<and> is_Exception e \<longrightarrow>
      (\<exists>line. suffix (exc_str e) line
         \<and> fst (check_mainwindow_inheritance s i) = ([line], Inr (0, 1))))
   \<and> (open_read s p = Inl e \<and> is_Exception e \<longrightarrow>
      (\<exists>line. suffix (exc_str e) line
         \<and> check_file_content s p search_str n success_msg fail_msg = ([line], Inr (0, 1))))
   \<and> (ast_walk w content = Inl e \<and> is_SyntaxError e \<longrightarrow>
      (\<exists>msg. suffix (exc_str e) msg
         \<and> check_type_hints w fp content st = Inr (add_issue (fp, msg, 2) st)))"
proof (intro conjI impI; elim conjE)
  assume "fst (import_module s i m [c]) = Some e" "is_ImportError e"
  then show "\<exists>line. suffix (exc_str e) line \<and> fst (check_import s m c n i) = ([line], Inr (0, 1))"
    by (cases "import_module s i m [c]") (simp add: check_import_def suffix_def)
next
  assume a: "fst (import_from s i (lit ''tidal_dl_ng.gui.main_window'') (lit ''MainWindow'')) = Some e"
    "is_Exception e"
  then show "\<exists>line. suffix (exc_str e) line
      \<and> fst (check_mainwindow_inheritance s i) = ([line], Inr (0, 1))"
    by (cases "import_from s i (lit ''tidal_dl_ng.gui.main_window'') (lit ''MainWindow'')")
      (simp add: check_mainwindow_inheritance_def inheritance_except_def suffix_def)
  from a show "\<exists>line. suffix (exc_str e) line \<and> fst (check_method_exists s i) = ([line], Inr (0, 1))"
    by (cases "import_from s i (lit ''tidal_dl_ng.gui.main_window'') (lit ''MainWindow'')")
      (simp add: check_method_exists_def method_except_def suffix_def)
next
  assume "import_from s i (lit ''tidal_dl_ng.gui.main_window'') (lit ''MainWindow'') = (None, i1)"
    "fst (import_from s i1 (lit ''tidal_dl_ng.gui.playlist_membership_mixin'')
            (lit ''PlaylistMembershipMixin'')) = Some e"
    "is_Exception e"
  then show "\<exists>line. suffix (exc_str e) line
      \<and> fst (check_mainwindow_inheritance s i) = ([line], Inr (0, 1))"
    by (cases "import_from s i1 (lit ''tidal_dl_ng.gui.playlist_membership_mixin'')
                 (lit ''PlaylistMembershipMixin'')")
      (simp add: check_mainwindow_inheritance_def inheritance_except_def suffix_def)
next
  assume "open_read s p = Inl e" "is_Exception e"
  then show "\<exists>line. suffix (exc_str e) line
         \<and> check_file_content s p search_str n success_msg fail_msg = ([line], Inr (0, 1))"
    by (simp add: check_file_content_def suffix_def)
next
  assume "ast_walk w content = Inl e" "is_SyntaxError e"
  then show "\<exists>msg. suffix (exc_str e) msg
         \<and> check_type_hints w fp content st = Inr (add_issue (fp, msg, 2) st)"
    by (intro exI [of _ "sym_fail @ lit '' Syntax error: '' @ exc_str e"])
      (simp add: check_type_hints_def suffix_def)
qed

theorem exceptions_caught_witness:
  "(\<exists>line. suffix (lit ''No module named x'') line
      \<and> fst (check_import site_no_mixin (lit ''tidal_dl_ng.gui.playlist_membership_mixin'')
               (lit ''PlaylistMembershipMixin'') 1 []) = ([line], Inr (0, 1)))
   \<and> (\<exists>line. suffix (lit ''initialisation failed'') line
      \<and> fst (check_mainwindow_inheritance site_flaky []) = ([line], Inr (0, 1)))"
  using exceptions_caught [of site_no_mixin "[]" "lit ''tidal_dl_ng.gui.playlist_membership_mixin''"
      "lit ''PlaylistMembershipMixin''" "Exc ModuleNotFoundError (lit ''No module named x'')"]
    exceptions_caught [of site_flaky "[]" _ _ "Exc ImportError (lit ''initialisation failed'')" _
      "[lit ''tidal_dl_ng.gui.main_window'']"]
  by (simp add: site_no_mixin_def site_flaky_def site_ok_def first_import_fails_def lit_def)

text \<open>
  C6, as first stated, fails: a module that raises a \<open>SyntaxError\<close> when imported ends the
  verifier with that exception, and a file that cannot be decoded ends the compliance
  checker with the \<open>UnicodeDecodeError\<close> of \<open>read_text\<close>.
\<close>

theorem exceptions_caught_counterexample:
  "snd (check_integration site_crash [] []) = Inl (Exc SyntaxError (lit ''invalid syntax''))
   \<and> main world_unreadable (lit ''/repo'') = Inl (Exc UnicodeDecodeError (lit ''invalid start byte''))"
  by (simp add: check_integration_def integration_counts_fold add_result_simps verifier_eval
      foldl_add_result_Inl main_def files_to_check_def check_file_def world_unreadable_def)












end
